theory Spec2Isabelle
  imports Complex_Main "HOL-Library.Sublist"
begin

section \<open>Strings\<close>

text \<open>
  A Python \<open>str\<close> is modelled as a \<open>string\<close>, one \<open>char\<close> per character, so
  \<open>length\<close> is Python's \<open>len\<close>. Of the builtins the generator calls, \<open>" ".join\<close>, the
  operator \<open>in\<close> and \<open>str.split\<close> without argument are written out for every
  character: \<open>is_space\<close> holds of exactly the characters below 256 that Python counts as
  white space. The case conversions \<open>str.lower\<close> and \<open>str.title\<close> are written out for
  the ASCII range, in which every keyword, template text and example of the generator
  lies. Outside it Python also converts the accented letters, and \<open>title\<close> can even
  lengthen a string there, so whatever is stated below about the length of a title is
  stated of prompts of ASCII characters (\<open>is_ascii\<close>).
\<close>

definition is_upper :: "char \<Rightarrow> bool" where
  "is_upper c \<longleftrightarrow> 65 \<le> (of_char c :: nat) \<and> (of_char c :: nat) \<le> 90"

definition is_lower :: "char \<Rightarrow> bool" where
  "is_lower c \<longleftrightarrow> 97 \<le> (of_char c :: nat) \<and> (of_char c :: nat) \<le> 122"

definition is_cased :: "char \<Rightarrow> bool" where
  "is_cased c \<longleftrightarrow> is_upper c \<or> is_lower c"

definition is_space :: "char \<Rightarrow> bool" where
  "is_space c \<longleftrightarrow>
     (of_char c :: nat) \<in> {9, 10, 11, 12, 13, 28, 29, 30, 31, 32, 133, 160}"


definition lower_char :: "char \<Rightarrow> char" where
  "lower_char c = (if is_upper c then char_of (of_char c + 32 :: nat) else c)"

definition upper_char :: "char \<Rightarrow> char" where
  "upper_char c = (if is_lower c then char_of (of_char c - 32 :: nat) else c)"

text \<open>\<open>s.lower()\<close>\<close>

definition str_lower :: "string \<Rightarrow> string" where
  "str_lower s = map lower_char s"

text \<open>\<open>sub in s\<close>: \<open>sub\<close> occurs in \<open>s\<close> as a contiguous run of characters.\<close>

fun str_contains :: "string \<Rightarrow> string \<Rightarrow> bool" where
  "str_contains [] sub = (sub = [])"
| "str_contains (c # cs) sub = (prefix sub (c # cs) \<or> str_contains cs sub)"

text \<open>
  \<open>s.split()\<close>: the maximal runs of characters that are not white space, in order;
  \<open>w\<close> is the run being read.
\<close>

fun split_from :: "string \<Rightarrow> string \<Rightarrow> string list" where
  "split_from w [] = (if w = [] then [] else [w])"
| "split_from w (c # cs) =
     (if is_space c then (if w = [] then split_from [] cs else w # split_from [] cs)
      else split_from (w @ [c]) cs)"

definition str_split :: "string \<Rightarrow> string list" where
  "str_split s = split_from [] s"

text \<open>\<open>sep.join(ws)\<close>\<close>

fun str_join :: "string \<Rightarrow> string list \<Rightarrow> string" where
  "str_join sep [] = []"
| "str_join sep [w] = w"
| "str_join sep (w # ws) = w @ sep @ str_join sep ws"

text \<open>
  \<open>s.title()\<close>: a letter that follows a letter is lower-cased, any other letter is
  upper-cased; \<open>prev\<close> says whether the previous character was a letter.
\<close>

fun title_from :: "bool \<Rightarrow> string \<Rightarrow> string" where
  "title_from prev [] = []"
| "title_from prev (c # cs) =
     (if prev then lower_char c else upper_char c) # title_from (is_cased c) cs"

definition str_title :: "string \<Rightarrow> string" where
  "str_title s = title_from False s"

section \<open>Schemas\<close>

datatype WorldType =
  FANTASY | SCI_FI | REALISTIC | SURREAL | HISTORICAL | URBAN | NATURE | SPACE

text \<open>The value of each member of the enumeration, and the member a value names.\<close>

fun WorldType_value :: "WorldType \<Rightarrow> string" where
  "WorldType_value FANTASY = ''fantasy''"
| "WorldType_value SCI_FI = ''sci_fi''"
| "WorldType_value REALISTIC = ''realistic''"
| "WorldType_value SURREAL = ''surreal''"
| "WorldType_value HISTORICAL = ''historical''"
| "WorldType_value URBAN = ''urban''"
| "WorldType_value NATURE = ''nature''"
| "WorldType_value SPACE = ''space''"

definition WorldType_members :: "WorldType list" where
  "WorldType_members =
     [FANTASY, SCI_FI, REALISTIC, SURREAL, HISTORICAL, URBAN, NATURE, SPACE]"

definition WorldType_of_value :: "string \<Rightarrow> WorldType option" where
  "WorldType_of_value s = find (\<lambda>t. WorldType_value t = s) WorldType_members"

datatype PrefabType =
  BUILDING | VEHICLE | CHARACTER | PROP | ENVIRONMENT | LIGHTING | EFFECT | UI

text \<open>
  The coordinates are Python floats. The generator only ever stores the constants of its
  templates, all small whole numbers, and never computes with them, so they are reals here.
\<close>

datatype Vector3 = Vector3 (vx: real) (vy: real) (vz: real)

datatype Quaternion = Quaternion (qx: real) (qy: real) (qz: real) (qw: real)

text \<open>A value of a \<open>Dict[str, Any]\<close>; a dictionary is the list of its items in insertion order.\<close>

datatype json_value = JStr string | JBool bool

type_synonym json_dict = "(string \<times> json_value) list"

type_synonym datetime = nat

record PrefabInstance =
  inst_id :: string
  inst_prefab_id :: string
  inst_prefab_type :: PrefabType
  inst_position :: Vector3
  inst_rotation :: Quaternion
  inst_scale :: Vector3
  inst_properties :: json_dict

record WorldBlueprint =
  bp_id :: string
  bp_prompt :: string
  bp_world_type :: WorldType
  bp_title :: string
  bp_description :: string
  bp_environment_settings :: json_dict
  bp_prefab_instances :: "PrefabInstance list"
  bp_spawn_points :: "Vector3 list"
  bp_created_at :: datetime
  bp_updated_at :: datetime
  bp_processing_time_ms :: "int option"

record PromptRequest =
  req_prompt :: string
  req_world_type :: "WorldType option"
  req_user_id :: string

text \<open>
  What a call reads from its surroundings: \<open>uuid4 env k\<close> is the string of the \<open>k\<close>-th
  identifier \<open>uuid4()\<close> hands out during the call (counted from 0), \<open>utcnow env k\<close> the
  \<open>k\<close>-th reading of \<open>datetime.utcnow\<close>, \<open>clock env k\<close> the \<open>k\<close>-th reading of
  \<open>time.time()\<close>. Nothing is assumed about them: the identifiers may repeat.
\<close>

record environment =
  uuid4 :: "nat \<Rightarrow> string"
  utcnow :: "nat \<Rightarrow> datetime"
  clock :: "nat \<Rightarrow> real"

text \<open>
  The exceptions a call can end in. A pydantic \<open>ValidationError\<close> carries the names of
  the fields that failed, in field order. \<open>WorldGenerationError\<close> is the application's own
  exception, which the endpoint looks for.
\<close>

datatype error = ValidationError "string list" | KeyError | IntegrityError | WorldGenerationError

text \<open>\<open>Field(..., min_length=lo, max_length=hi)\<close> on a \<open>str\<close>\<close>

definition length_between :: "nat \<Rightarrow> nat \<Rightarrow> string \<Rightarrow> bool" where
  "length_between lo hi s \<longleftrightarrow> lo \<le> length s \<and> length s \<le> hi"

text \<open>
  \<open>PrefabInstance(prefab_id=..., prefab_type=..., position=..., rotation=...,
  properties=...)\<close>: the identifier comes from \<open>uuid4\<close>, the scale is the unit scale.
\<close>

definition new_PrefabInstance ::
  "string \<Rightarrow> string \<Rightarrow> PrefabType \<Rightarrow> Vector3 \<Rightarrow> Quaternion \<Rightarrow> json_dict \<Rightarrow> PrefabInstance" where
  "new_PrefabInstance fresh_id prefab_id prefab_type position rotation properties =
     \<lparr>inst_id = fresh_id, inst_prefab_id = prefab_id, inst_prefab_type = prefab_type,
      inst_position = position, inst_rotation = rotation, inst_scale = Vector3 1 1 1,
      inst_properties = properties\<rparr>"

text \<open>\<open>WorldBlueprint.validate_prefab_instances\<close>; \<open>Inl\<close> is the \<open>ValueError\<close> with its message.\<close>

definition validate_prefab_instances :: "PrefabInstance list \<Rightarrow> string + PrefabInstance list" where
  "validate_prefab_instances v =
     (let instance_ids = map inst_id v in
      if length instance_ids \<noteq> length (remdups instance_ids)
      then Inl ''Prefab instances must have unique IDs''
      else Inr v)"

text \<open>
  The fields of a \<open>WorldBlueprint\<close> that fail validation when it is constructed from the
  generator's arguments: the three length constraints and the validator of the instances.
\<close>

definition WorldBlueprint_errors ::
  "string \<Rightarrow> string \<Rightarrow> string \<Rightarrow> PrefabInstance list \<Rightarrow> string list" where
  "WorldBlueprint_errors prompt title description prefab_instances =
     (if length_between 1 1000 prompt then [] else [''prompt'']) @
     (if length_between 1 200 title then [] else [''title'']) @
     (if length_between 1 2000 description then [] else [''description'']) @
     (case validate_prefab_instances prefab_instances of
        Inl msg \<Rightarrow> [''prefab_instances'']
      | Inr v \<Rightarrow> [])"

text \<open>
  \<open>WorldBlueprint(prompt=..., world_type=..., title=..., description=...,
  environment_settings=..., prefab_instances=..., spawn_points=...)\<close>: either the
  \<open>ValidationError\<close> or the blueprint, with its identifier and time stamps taken from the
  surroundings and no processing time yet.
\<close>

definition new_WorldBlueprint ::
  "string \<Rightarrow> datetime \<Rightarrow> datetime \<Rightarrow> string \<Rightarrow> WorldType \<Rightarrow> string \<Rightarrow> string \<Rightarrow> json_dict \<Rightarrow>
   PrefabInstance list \<Rightarrow> Vector3 list \<Rightarrow> error + WorldBlueprint" where
  "new_WorldBlueprint fresh_id created updated prompt world_type title description
     environment_settings prefab_instances spawn_points =
     (let errs = WorldBlueprint_errors prompt title description prefab_instances in
      if errs \<noteq> [] then Inl (ValidationError errs)
      else Inr \<lparr>bp_id = fresh_id, bp_prompt = prompt, bp_world_type = world_type,
                bp_title = title, bp_description = description,
                bp_environment_settings = environment_settings,
                bp_prefab_instances = prefab_instances, bp_spawn_points = spawn_points,
                bp_created_at = created, bp_updated_at = updated,
                bp_processing_time_ms = None\<rparr>)"

text \<open>
  The body of a request as it arrives, and \<open>PromptRequest\<close>'s validation of it: the
  length constraint on the prompt, and a world type that, when given, names a member of
  the enumeration.
\<close>

record request_body =
  body_prompt :: string
  body_world_type :: "string option"
  body_user_id :: string

definition new_PromptRequest :: "request_body \<Rightarrow> error + PromptRequest" where
  "new_PromptRequest body =
     (let errs =
        (if length_between 1 1000 (body_prompt body) then [] else [''prompt'']) @
        (case body_world_type body of
           None \<Rightarrow> []
         | Some s \<Rightarrow> (case WorldType_of_value s of None \<Rightarrow> [''world_type''] | Some t \<Rightarrow> []))
      in
      if errs \<noteq> [] then Inl (ValidationError errs)
      else Inr \<lparr>req_prompt = body_prompt body,
                req_world_type =
                  (case body_world_type body of None \<Rightarrow> None | Some s \<Rightarrow> WorldType_of_value s),
                req_user_id = body_user_id body\<rparr>)"

section \<open>Database model\<close>

text \<open>
  A row of the table \<open>world_blueprints\<close> (\<open>WorldBlueprintModel\<close>); the instances and spawn
  points are stored field by field (\<open>model_dump\<close>), so the row holds their values. The
  table is the list of its committed rows, and \<open>id\<close> is its primary key: adding a row
  whose key is taken fails at the commit.
\<close>

record WorldBlueprintModel =
  row_id :: string
  row_prompt :: string
  row_world_type :: string
  row_title :: string
  row_description :: string
  row_environment_settings :: json_dict
  row_prefab_instances :: "PrefabInstance list"
  row_spawn_points :: "Vector3 list"
  row_created_at :: datetime
  row_updated_at :: datetime

type_synonym db = "WorldBlueprintModel list"

definition db_add_commit :: "WorldBlueprintModel \<Rightarrow> db \<Rightarrow> error + db" where
  "db_add_commit world_model table =
     (if row_id world_model \<in> set (map row_id table) then Inl IntegrityError
      else Inr (table @ [world_model]))"

section \<open>World generator: inference of the world type\<close>

text \<open>\<open>WorldGeneratorService._infer_world_type\<close>\<close>

definition infer_world_type :: "string \<Rightarrow> WorldType" where
  "infer_world_type prompt =
     (let prompt_lower = str_lower prompt in
      if list_ex (\<lambda>word. str_contains prompt_lower word)
           [''fantasy'', ''magic'', ''dragon'', ''wizard'', ''castle''] then FANTASY
      else if list_ex (\<lambda>word. str_contains prompt_lower word)
           [''space'', ''alien'', ''robot'', ''future'', ''sci-fi''] then SCI_FI
      else if list_ex (\<lambda>word. str_contains prompt_lower word)
           [''city'', ''urban'', ''street'', ''building''] then URBAN
      else if list_ex (\<lambda>word. str_contains prompt_lower word)
           [''forest'', ''mountain'', ''nature'', ''wilderness''] then NATURE
      else if list_ex (\<lambda>word. str_contains prompt_lower word)
           [''medieval'', ''ancient'', ''historical'', ''vintage''] then HISTORICAL
      else REALISTIC)"

section \<open>World generator: the blueprint\<close>

text \<open>\<open>WorldGeneratorService._generate_title\<close>; the world type is not used.\<close>

definition generate_title :: "string \<Rightarrow> WorldType \<Rightarrow> string" where
  "generate_title prompt world_type =
     (let words = take 5 (str_split prompt);
          title = str_title (str_join '' '' words)
      in title @ '' World'')"

text \<open>
  \<open>WorldGeneratorService._generate_description\<close>. The dictionary has an entry for every
  member of the enumeration; \<open>.get\<close> falls back to its second argument on a missing key.
\<close>

definition base_descriptions :: "(WorldType \<times> string) list" where
  "base_descriptions =
     [(FANTASY, ''A magical realm filled with wonder and enchantment.''),
      (SCI_FI, ''A futuristic world with advanced technology and alien landscapes.''),
      (REALISTIC, ''A realistic environment based on real-world locations.''),
      (SURREAL, ''A dreamlike world that defies conventional reality.''),
      (HISTORICAL, ''A historical setting that captures the essence of the past.''),
      (URBAN, ''A bustling urban environment with modern architecture.''),
      (NATURE, ''A natural environment filled with organic beauty.''),
      (SPACE, ''An otherworldly space environment with cosmic wonders.'')]"

definition dict_get :: "('k \<times> 'v) list \<Rightarrow> 'k \<Rightarrow> 'v \<Rightarrow> 'v" where
  "dict_get d k dflt = (case map_of d k of Some v \<Rightarrow> v | None \<Rightarrow> dflt)"

definition generate_description :: "string \<Rightarrow> WorldType \<Rightarrow> string" where
  "generate_description prompt world_type =
     ''Generated from: '' @ [CHR 0x27] @ prompt @ [CHR 0x27] @ ''. '' @
     dict_get base_descriptions world_type ''A unique world to explore.''"

text \<open>
  \<open>WorldGeneratorService._generate_environment_settings\<close>. The fallback is read with
  \<open>settings_templates[WorldType.REALISTIC]\<close>, which raises \<open>KeyError\<close> on a missing key.
\<close>

definition settings_templates :: "(WorldType \<times> json_dict) list" where
  "settings_templates =
     [(FANTASY,
        [(''lighting'', JStr ''mystical''), (''weather'', JStr ''ethereal''),
         (''ambient_sound'', JStr ''magical_forest''), (''skybox'', JStr ''fantasy_sky'')]),
      (SCI_FI,
        [(''lighting'', JStr ''neon''), (''weather'', JStr ''none''),
         (''ambient_sound'', JStr ''space_station''), (''skybox'', JStr ''space_stars'')]),
      (REALISTIC,
        [(''lighting'', JStr ''natural''), (''weather'', JStr ''clear''),
         (''ambient_sound'', JStr ''city_traffic''), (''skybox'', JStr ''realistic_sky'')]),
      (URBAN,
        [(''lighting'', JStr ''street_lights''), (''weather'', JStr ''overcast''),
         (''ambient_sound'', JStr ''urban_bustle''), (''skybox'', JStr ''city_skyline'')]),
      (NATURE,
        [(''lighting'', JStr ''sunlight''), (''weather'', JStr ''sunny''),
         (''ambient_sound'', JStr ''birds_chirping''), (''skybox'', JStr ''forest_canopy'')])]"

definition generate_environment_settings :: "WorldType \<Rightarrow> error + json_dict" where
  "generate_environment_settings world_type =
     (case map_of settings_templates REALISTIC of
        None \<Rightarrow> Inl KeyError
      | Some realistic \<Rightarrow> Inr (dict_get settings_templates world_type realistic))"

text \<open>
  \<open>WorldGeneratorService._generate_prefab_instances\<close>. The instances are constructed in
  the order of the list, so the \<open>k\<close>-th takes the \<open>k\<close>-th identifier of the call.
\<close>

definition generate_prefab_instances ::
  "environment \<Rightarrow> string \<Rightarrow> WorldType \<Rightarrow> PrefabInstance list" where
  "generate_prefab_instances env prompt world_type =
     (let instances = [] in
      if world_type = FANTASY then
        instances @
        [new_PrefabInstance (uuid4 env 0) ''fantasy_castle_01'' BUILDING
           (Vector3 0 0 0) (Quaternion 0 0 0 1)
           [(''theme'', JStr ''medieval''), (''size'', JStr ''large'')],
         new_PrefabInstance (uuid4 env 1) ''magic_tree_01'' ENVIRONMENT
           (Vector3 10 0 5) (Quaternion 0 0 0 1)
           [(''glow'', JBool True), (''animated'', JBool True)]]
      else if world_type = SCI_FI then
        instances @
        [new_PrefabInstance (uuid4 env 0) ''space_station_01'' BUILDING
           (Vector3 0 0 0) (Quaternion 0 0 0 1)
           [(''theme'', JStr ''futuristic''), (''size'', JStr ''massive'')],
         new_PrefabInstance (uuid4 env 1) ''hologram_display_01'' UI
           (Vector3 5 2 0) (Quaternion 0 0 0 1)
           [(''interactive'', JBool True), (''glow'', JBool True)]]
      else
        instances @
        [new_PrefabInstance (uuid4 env 0) ''modern_building_01'' BUILDING
           (Vector3 0 0 0) (Quaternion 0 0 0 1)
           [(''theme'', JStr ''modern''), (''size'', JStr ''medium'')]])"

text \<open>\<open>WorldGeneratorService._generate_spawn_points\<close>\<close>

definition generate_spawn_points :: "WorldType \<Rightarrow> Vector3 list" where
  "generate_spawn_points world_type =
     (if world_type = FANTASY then [Vector3 0 1 0, Vector3 10 1 5]
      else if world_type = SCI_FI then [Vector3 0 1 0, Vector3 5 1 0]
      else [Vector3 0 1 0, Vector3 5 1 5])"

text \<open>
  \<open>WorldGeneratorService._create_world_blueprint\<close>. The blueprint's own identifier is
  drawn after those of its instances; its two time stamps are the first two readings of
  \<open>datetime.utcnow\<close>.
\<close>

definition create_world_blueprint ::
  "environment \<Rightarrow> string \<Rightarrow> WorldType \<Rightarrow> error + WorldBlueprint" where
  "create_world_blueprint env prompt world_type =
     (let title = generate_title prompt world_type;
          description = generate_description prompt world_type
      in case generate_environment_settings world_type of
           Inl e \<Rightarrow> Inl e
         | Inr environment_settings \<Rightarrow>
             (let prefab_instances = generate_prefab_instances env prompt world_type;
                  spawn_points = generate_spawn_points world_type
              in new_WorldBlueprint (uuid4 env (length prefab_instances))
                   (utcnow env 0) (utcnow env 1) prompt world_type title description
                   environment_settings prefab_instances spawn_points))"

text \<open>\<open>int(x)\<close> on a float: truncation towards zero.\<close>

definition py_int :: "real \<Rightarrow> int" where
  "py_int r = (if 0 \<le> r then \<lfloor>r\<rfloor> else \<lceil>r\<rceil>)"

text \<open>
  \<open>WorldGeneratorService.generate_world_from_prompt\<close>, on the table \<open>table\<close> of the
  session \<open>self.db\<close>: the result is the exception, or the table after the commit together
  with the blueprint returned. The row's own time stamps are the column defaults, the
  next two readings of \<open>datetime.utcnow\<close>. An exception leaves the table as it was.
\<close>

definition generate_world_from_prompt ::
  "environment \<Rightarrow> db \<Rightarrow> PromptRequest \<Rightarrow> error + (db \<times> WorldBlueprint)" where
  "generate_world_from_prompt env table request =
     (let start_time = clock env 0;
          world_type = (case req_world_type request of
                          Some t \<Rightarrow> t
                        | None \<Rightarrow> infer_world_type (req_prompt request))
      in case create_world_blueprint env (req_prompt request) world_type of
           Inl e \<Rightarrow> Inl e
         | Inr world_blueprint \<Rightarrow>
             (let world_model =
                    \<lparr>row_id = bp_id world_blueprint,
                     row_prompt = bp_prompt world_blueprint,
                     row_world_type = WorldType_value (bp_world_type world_blueprint),
                     row_title = bp_title world_blueprint,
                     row_description = bp_description world_blueprint,
                     row_environment_settings = bp_environment_settings world_blueprint,
                     row_prefab_instances = bp_prefab_instances world_blueprint,
                     row_spawn_points = bp_spawn_points world_blueprint,
                     row_created_at = utcnow env 2,
                     row_updated_at = utcnow env 3\<rparr>
              in case db_add_commit world_model table of
                   Inl e \<Rightarrow> Inl e
                 | Inr table' \<Rightarrow>
                     (let processing_time = py_int ((clock env 1 - start_time) * 1000)
                      in Inr (table',
                              world_blueprint\<lparr>bp_processing_time_ms := Some processing_time\<rparr>))))"

section \<open>The endpoint\<close>

text \<open>
  \<open>convert_prompt_to_world\<close>, from the body of a request to the response's status and
  the table afterwards. The body is validated into a \<open>PromptRequest\<close> before the handler
  runs; a body that fails is answered with status 422 and the handler does not run. In the
  handler a \<open>WorldGenerationError\<close> becomes status 400 and every other exception status
  500. Authentication is left out.
\<close>

datatype response =
  HTTP_200 WorldBlueprint | HTTP_400 | HTTP_422 "string list" | HTTP_500

definition convert_prompt_to_world ::
  "environment \<Rightarrow> db \<Rightarrow> request_body \<Rightarrow> db \<times> response" where
  "convert_prompt_to_world env table body =
     (case new_PromptRequest body of
        Inl e \<Rightarrow> (table, (case e of ValidationError errs \<Rightarrow> HTTP_422 errs | _ \<Rightarrow> HTTP_500))
      | Inr request \<Rightarrow>
          (case generate_world_from_prompt env table request of
             Inr (table', world_blueprint) \<Rightarrow> (table', HTTP_200 world_blueprint)
           | Inl WorldGenerationError \<Rightarrow> (table, HTTP_400)
           | Inl e \<Rightarrow> (table, HTTP_500)))"

section \<open>The containers of a blueprint as objects\<close>













section \<open>The classifier as the specification words it\<close>

text \<open>
  The ordered rules of the specification: the first rule one of whose keywords occurs in
  the lower-cased prompt gives the category, and \<open>realistic\<close> is the default.
\<close>

definition classify_rules :: "(WorldType \<times> string list) list" where
  "classify_rules =
     [(FANTASY, [''fantasy'', ''magic'', ''dragon'', ''wizard'', ''castle'']),
      (SCI_FI, [''space'', ''alien'', ''robot'', ''future'', ''sci-fi'']),
      (URBAN, [''city'', ''urban'', ''street'', ''building'']),
      (NATURE, [''forest'', ''mountain'', ''nature'', ''wilderness'']),
      (HISTORICAL, [''medieval'', ''ancient'', ''historical'', ''vintage''])]"

definition classify_spec :: "string \<Rightarrow> WorldType" where
  "classify_spec prompt =
     (case find (\<lambda>rule. \<exists>keyword \<in> set (snd rule). sublist keyword (str_lower prompt))
             classify_rules of
        Some rule \<Rightarrow> fst rule
      | None \<Rightarrow> REALISTIC)"

text \<open>
  A blueprint with everything generated per call blanked: its identifier, the identifiers
  of its instances and its two time stamps.
\<close>

definition erase_generated :: "WorldBlueprint \<Rightarrow> WorldBlueprint" where
  "erase_generated bp =
     bp\<lparr>bp_id := [], bp_created_at := 0, bp_updated_at := 0,
        bp_prefab_instances := map (\<lambda>i. i\<lparr>inst_id := []\<rparr>) (bp_prefab_instances bp)\<rparr>"

section \<open>Example inputs\<close>

definition example_env :: environment where
  "example_env =
     \<lparr>uuid4 = (\<lambda>k. if k = 0 then ''id-a'' else if k = 1 then ''id-b'' else ''id-c''),
      utcnow = (\<lambda>k. 100 + k),
      clock = (\<lambda>k. if k = 0 then 0 else 1 / 4)\<rparr>"

text \<open>The same surroundings, but the call takes twice as long.\<close>

definition slower_env :: environment where
  "slower_env = example_env\<lparr>clock := (\<lambda>k. if k = 0 then 0 else 1 / 2)\<rparr>"

text \<open>Surroundings in which \<open>uuid4\<close> hands out the same identifier every time.\<close>

definition colliding_env :: environment where
  "colliding_env = example_env\<lparr>uuid4 := (\<lambda>k. ''id-a'')\<rparr>"

definition example_prompt :: string where
  "example_prompt = ''A magical forest with ancient trees and glowing mushrooms''"

definition example_request :: PromptRequest where
  "example_request =
     \<lparr>req_prompt = example_prompt, req_world_type = None, req_user_id = ''test_user''\<rparr>"

definition body_of :: "string \<Rightarrow> string option \<Rightarrow> request_body" where
  "body_of prompt world_type =
     \<lparr>body_prompt = prompt, body_world_type = world_type, body_user_id = ''test_user''\<rparr>"

text \<open>Other surroundings: other identifiers, other time stamps, another duration.\<close>

definition later_env :: environment where
  "later_env =
     \<lparr>uuid4 = (\<lambda>k. if k = 0 then ''id-x'' else if k = 1 then ''id-y'' else ''id-z''),
      utcnow = (\<lambda>k. 200 + k),
      clock = (\<lambda>k. if k = 0 then 7 else 8)\<rparr>"




section \<open>Auxiliary facts\<close>

lemma str_contains_sublist: "str_contains s sub \<longleftrightarrow> sublist sub s"
  by (induction s) (auto simp: sublist_Cons_right)

lemma validate_prefab_instances_distinct:
  "validate_prefab_instances v =
     (if distinct (map inst_id v) then Inr v else Inl ''Prefab instances must have unique IDs'')"
proof -
  have "length (map inst_id v) = length (remdups (map inst_id v)) \<longleftrightarrow>
        distinct (map inst_id v)"
    by (metis length_remdups_eq remdups_id_iff_distinct)
  then show ?thesis
    by (simp only: validate_prefab_instances_def Let_def) simp
qed

lemma WorldBlueprint_errors_Nil:
  "WorldBlueprint_errors prompt title description prefab_instances = [] \<longleftrightarrow>
     length_between 1 1000 prompt \<and> length_between 1 200 title \<and>
     length_between 1 2000 description \<and> distinct (map inst_id prefab_instances)"
  by (simp add: WorldBlueprint_errors_def validate_prefab_instances_distinct)

lemma generate_environment_settings_total:
  "\<exists>settings. generate_environment_settings world_type = Inr settings"
  by (simp add: generate_environment_settings_def settings_templates_def)

lemma create_world_blueprint_Inr:
  assumes "create_world_blueprint env prompt world_type = Inr bp"
  shows "bp_prompt bp = prompt" and "bp_world_type bp = world_type"
    and "bp_title bp = generate_title prompt world_type"
    and "bp_description bp = generate_description prompt world_type"
    and "generate_environment_settings world_type = Inr (bp_environment_settings bp)"
    and "bp_prefab_instances bp = generate_prefab_instances env prompt world_type"
    and "bp_spawn_points bp = generate_spawn_points world_type"
    and "bp_id bp = uuid4 env (length (generate_prefab_instances env prompt world_type))"
    and "bp_created_at bp = utcnow env 0" and "bp_updated_at bp = utcnow env 1"
    and "bp_processing_time_ms bp = None"
    and "WorldBlueprint_errors prompt (generate_title prompt world_type)
           (generate_description prompt world_type)
           (generate_prefab_instances env prompt world_type) = []"
  using assms
  by (auto simp: create_world_blueprint_def new_WorldBlueprint_def Let_def
      split: sum.splits if_splits)

lemma create_world_blueprint_Inl:
  assumes "create_world_blueprint env prompt world_type = Inl e"
  shows "e = ValidationError (WorldBlueprint_errors prompt (generate_title prompt world_type)
           (generate_description prompt world_type)
           (generate_prefab_instances env prompt world_type))"
    and "WorldBlueprint_errors prompt (generate_title prompt world_type)
           (generate_description prompt world_type)
           (generate_prefab_instances env prompt world_type) \<noteq> []"
  using assms generate_environment_settings_total [of world_type]
  by (auto simp: create_world_blueprint_def new_WorldBlueprint_def Let_def
      split: sum.splits if_splits)

lemma create_world_blueprint_succeeds:
  assumes "WorldBlueprint_errors prompt (generate_title prompt world_type)
           (generate_description prompt world_type)
           (generate_prefab_instances env prompt world_type) = []"
  shows "\<exists>bp. create_world_blueprint env prompt world_type = Inr bp"
  using assms generate_environment_settings_total [of world_type]
  by (auto simp: create_world_blueprint_def new_WorldBlueprint_def Let_def
      split: sum.splits)

lemma generate_world_from_prompt_Inr:
  assumes "generate_world_from_prompt env table request = Inr (table', bp)"
  shows "\<exists>bp0. create_world_blueprint env (req_prompt request)
             (case req_world_type request of Some t \<Rightarrow> t
              | None \<Rightarrow> infer_world_type (req_prompt request)) = Inr bp0 \<and>
           bp = bp0\<lparr>bp_processing_time_ms := Some (py_int ((clock env 1 - clock env 0) * 1000))\<rparr> \<and>
           bp_id bp0 \<notin> set (map row_id table) \<and>
           table' = table @
             [\<lparr>row_id = bp_id bp0, row_prompt = bp_prompt bp0,
               row_world_type = WorldType_value (bp_world_type bp0),
               row_title = bp_title bp0, row_description = bp_description bp0,
               row_environment_settings = bp_environment_settings bp0,
               row_prefab_instances = bp_prefab_instances bp0,
               row_spawn_points = bp_spawn_points bp0,
               row_created_at = utcnow env 2, row_updated_at = utcnow env 3\<rparr>]"
  using assms
  by (auto simp: generate_world_from_prompt_def db_add_commit_def Let_def
      split: sum.splits if_splits)

lemma generate_world_from_prompt_succeeds:
  assumes "create_world_blueprint env (req_prompt request)
             (case req_world_type request of Some t \<Rightarrow> t
              | None \<Rightarrow> infer_world_type (req_prompt request)) = Inr bp0"
    and "bp_id bp0 \<notin> set (map row_id table)"
  shows "\<exists>table' bp. generate_world_from_prompt env table request = Inr (table', bp)"
  using assms
  by (simp add: generate_world_from_prompt_def db_add_commit_def Let_def)

lemma length_generate_description:
  "length (generate_description prompt world_type) \<le> length prompt + 85"
  "length prompt + 20 \<le> length (generate_description prompt world_type)"
  by (cases world_type; simp add: generate_description_def dict_get_def base_descriptions_def)+

lemma length_generate_prefab_instances:
  "length (generate_prefab_instances env prompt world_type) =
     (if world_type = FANTASY \<or> world_type = SCI_FI then 2 else 1)"
  by (simp add: generate_prefab_instances_def)

lemma instance_ids_generated:
  "map inst_id (generate_prefab_instances env prompt world_type) =
     (if world_type = FANTASY \<or> world_type = SCI_FI then [uuid4 env 0, uuid4 env 1]
      else [uuid4 env 0])"
  by (simp add: generate_prefab_instances_def new_PrefabInstance_def)

section \<open>Classification\<close>

text \<open>
  C2. \<open>_infer_world_type\<close> returns a world type for every prompt (it has no failing
  branch). Its result is that of the ordered rules fantasy, sci-fi, urban, nature,
  historical: the type of the first rule one of whose keywords occurs as a substring of
  the lower-cased prompt, and realistic when no rule has one. It depends on the prompt
  only through its lower-cased form, so two prompts that differ in letter case alone get
  the same type. The prompt "magic city" is fantasy, although "city" is an urban keyword.
\<close>

theorem infer_world_type_first_match:
  "infer_world_type prompt = classify_spec prompt \<and>
   (str_lower prompt = str_lower prompt' \<longrightarrow>
      infer_world_type prompt = infer_world_type prompt') \<and>
   infer_world_type ''magic city'' = FANTASY"
proof (intro conjI impI)
  show "infer_world_type prompt = classify_spec prompt"
    by (simp add: infer_world_type_def classify_spec_def classify_rules_def Let_def
        str_contains_sublist)
  show "infer_world_type prompt = infer_world_type prompt'"
    if "str_lower prompt = str_lower prompt'"
    using that by (simp add: infer_world_type_def)
  show "infer_world_type ''magic city'' = FANTASY"
    by code_simp
qed

theorem infer_world_type_first_match_witness:
  "str_lower ''Magic City'' = str_lower ''mAGIC cITY'' \<and>
   infer_world_type ''Magic City'' = infer_world_type ''mAGIC cITY'' \<and>
   infer_world_type ''Magic City'' = FANTASY \<and>
   classify_spec ''Magic City'' = FANTASY"
proof -
  have low: "str_lower ''Magic City'' = str_lower ''mAGIC cITY''"
    by code_simp
  have val: "infer_world_type ''Magic City'' = FANTASY"
    by code_simp
  from infer_world_type_first_match [of "''Magic City''" "''mAGIC cITY''"] low val
  show ?thesis by simp
qed

text \<open>
  C9. The world type \<open>_infer_world_type\<close> returns is one of fantasy, sci-fi, urban,
  nature, historical and realistic, never surreal or space. A blueprint returned by
  \<open>generate_world_from_prompt\<close> has the type surreal or space only if the request named
  that type, and a request that names a type gets a blueprint of that type.
\<close>

theorem inferred_world_type_range:
  "infer_world_type prompt \<in> {FANTASY, SCI_FI, URBAN, NATURE, HISTORICAL, REALISTIC} \<and>
   infer_world_type prompt \<noteq> SURREAL \<and> infer_world_type prompt \<noteq> SPACE \<and>
   (generate_world_from_prompt env table request = Inr (table', bp) \<and>
    (bp_world_type bp = SURREAL \<or> bp_world_type bp = SPACE) \<longrightarrow>
      req_world_type request = Some (bp_world_type bp)) \<and>
   (generate_world_from_prompt env table request = Inr (table', bp) \<and>
    req_world_type request = Some t \<longrightarrow> bp_world_type bp = t)"
proof -
  have range: "infer_world_type p \<in> {FANTASY, SCI_FI, URBAN, NATURE, HISTORICAL, REALISTIC}"
    for p
    by (simp add: infer_world_type_def Let_def)
  have not_inferred: "infer_world_type p \<noteq> SURREAL \<and> infer_world_type p \<noteq> SPACE" for p
    using range [of p] by auto
  have resolved: "bp_world_type bp =
      (case req_world_type request of Some t \<Rightarrow> t | None \<Rightarrow> infer_world_type (req_prompt request))"
    if "generate_world_from_prompt env table request = Inr (table', bp)"
  proof -
    from generate_world_from_prompt_Inr [OF that] obtain bp0 where
      c: "create_world_blueprint env (req_prompt request)
             (case req_world_type request of Some t \<Rightarrow> t
              | None \<Rightarrow> infer_world_type (req_prompt request)) = Inr bp0"
      and b: "bp = bp0\<lparr>bp_processing_time_ms := Some (py_int ((clock env 1 - clock env 0) * 1000))\<rparr>"
      by blast
    from create_world_blueprint_Inr(2) [OF c] b show ?thesis by simp
  qed
  show ?thesis
    using range [of prompt] not_inferred [of prompt] not_inferred [of "req_prompt request"]
    by (auto dest!: resolved split: option.splits)
qed

theorem inferred_world_type_range_witness:
  "\<not> isl (generate_world_from_prompt example_env []
            \<lparr>req_prompt = ''a dream'', req_world_type = Some SURREAL, req_user_id = ''u''\<rparr>) \<and>
   bp_world_type (snd (projr (generate_world_from_prompt example_env []
            \<lparr>req_prompt = ''a dream'', req_world_type = Some SURREAL, req_user_id = ''u''\<rparr>)))
     = SURREAL \<and>
   infer_world_type ''a dream'' = REALISTIC"
proof -
  let ?r = "\<lparr>req_prompt = ''a dream'', req_world_type = Some SURREAL, req_user_id = ''u''\<rparr>"
  let ?g = "generate_world_from_prompt example_env [] ?r"
  have ok: "\<not> isl ?g" by code_simp
  then have eq: "?g = Inr (fst (projr ?g), snd (projr ?g))"
    by (cases ?g) auto
  have inf: "infer_world_type ''a dream'' = REALISTIC" by code_simp
  from inferred_world_type_range [of "''a dream''" example_env "[]" ?r "fst (projr ?g)"
      "snd (projr ?g)" SURREAL] eq
  have "bp_world_type (snd (projr ?g)) = SURREAL" by simp
  with ok inf show ?thesis by simp
qed

section \<open>Description\<close>

text \<open>
  C10. For a prompt of 1 to 1000 characters and any world type, the description
  "Generated from: '<prompt>'. <fragment>" has between 1 and 2000 characters, so the
  description never is among the fields that fail when the blueprint is constructed:
  whatever validation error \<open>_create_world_blueprint\<close> ends in does not name it.
\<close>

theorem description_length_valid:
  "length_between 1 1000 prompt \<longrightarrow>
     length_between 1 2000 (generate_description prompt world_type) \<and>
     ''description'' \<notin> set (WorldBlueprint_errors prompt (generate_title prompt world_type)
        (generate_description prompt world_type)
        (generate_prefab_instances env prompt world_type)) \<and>
     (\<forall>errs. create_world_blueprint env prompt world_type = Inl (ValidationError errs) \<longrightarrow>
        ''description'' \<notin> set errs)"
proof (intro impI)
  assume valid: "length_between 1 1000 prompt"
  have len: "length_between 1 2000 (generate_description prompt world_type)"
    using valid length_generate_description [of prompt world_type]
    by (simp add: length_between_def)
  have field: "''description'' \<notin> set (WorldBlueprint_errors prompt title
      (generate_description prompt world_type) instances)" for title instances
    using len by (simp add: WorldBlueprint_errors_def split: sum.splits)
  have "''description'' \<notin> set errs"
    if "create_world_blueprint env prompt world_type = Inl (ValidationError errs)" for errs
    using create_world_blueprint_Inl(1) [OF that] field by simp
  with len field show "length_between 1 2000 (generate_description prompt world_type) \<and>
     ''description'' \<notin> set (WorldBlueprint_errors prompt (generate_title prompt world_type)
        (generate_description prompt world_type)
        (generate_prefab_instances env prompt world_type)) \<and>
     (\<forall>errs. create_world_blueprint env prompt world_type = Inl (ValidationError errs) \<longrightarrow>
        ''description'' \<notin> set errs)"
    by blast
qed

theorem description_length_valid_witness:
  "length_between 1 1000 (replicate 1000 CHR ''a'') \<and>
   length (generate_description (replicate 1000 CHR ''a'') SCI_FI) = 1085 \<and>
   length_between 1 2000 (generate_description (replicate 1000 CHR ''a'') SCI_FI)"
proof -
  have valid: "length_between 1 1000 (replicate 1000 CHR ''a'')"
    by (simp add: length_between_def)
  have len: "length (generate_description (replicate 1000 CHR ''a'') SCI_FI) = 1085"
    by (simp add: generate_description_def dict_get_def base_descriptions_def)
  from description_length_valid [of "replicate 1000 CHR ''a''" SCI_FI example_env] valid
  have "length_between 1 2000 (generate_description (replicate 1000 CHR ''a'') SCI_FI)"
    by blast
  with valid len show ?thesis by simp
qed

section \<open>Instances and spawn points\<close>

text \<open>
  C1. The instances of every blueprint that \<open>_create_world_blueprint\<close>, and so
  \<open>generate_world_from_prompt\<close>, returns have pairwise distinct identifiers, and they are
  all the instances generated: none is dropped. The check is the validator
  \<open>validate_prefab_instances\<close>, which returns its argument unchanged when the identifiers
  are distinct and raises otherwise; when two generated instances share an identifier the
  construction ends in a validation error naming the field \<open>prefab_instances\<close>, which the
  endpoint answers with status 500.
\<close>

theorem prefab_instance_ids_distinct:
  "(create_world_blueprint env prompt world_type = Inr bp \<longrightarrow>
      distinct (map inst_id (bp_prefab_instances bp)) \<and>
      bp_prefab_instances bp = generate_prefab_instances env prompt world_type) \<and>
   (generate_world_from_prompt env table request = Inr (table', bp') \<longrightarrow>
      distinct (map inst_id (bp_prefab_instances bp'))) \<and>
   (\<not> distinct (map inst_id (generate_prefab_instances env prompt world_type)) \<longrightarrow>
      (\<exists>errs. create_world_blueprint env prompt world_type = Inl (ValidationError errs) \<and>
              ''prefab_instances'' \<in> set errs)) \<and>
   validate_prefab_instances v =
     (if distinct (map inst_id v) then Inr v
      else Inl ''Prefab instances must have unique IDs'')"
proof (intro conjI impI)
  show "distinct (map inst_id (bp_prefab_instances b))"
    if "create_world_blueprint e p t = Inr b" for e p t b
    using create_world_blueprint_Inr(6,12) [OF that]
    by (simp add: WorldBlueprint_errors_Nil)
  note created = this
  show "bp_prefab_instances bp = generate_prefab_instances env prompt world_type"
    if "create_world_blueprint env prompt world_type = Inr bp"
    using create_world_blueprint_Inr(6) [OF that] .
  show "distinct (map inst_id (bp_prefab_instances bp'))"
    if "generate_world_from_prompt env table request = Inr (table', bp')"
  proof -
    from generate_world_from_prompt_Inr [OF that] obtain bp0 where
      "create_world_blueprint env (req_prompt request)
         (case req_world_type request of Some t \<Rightarrow> t
          | None \<Rightarrow> infer_world_type (req_prompt request)) = Inr bp0"
      and "bp' = bp0\<lparr>bp_processing_time_ms :=
             Some (py_int ((clock env 1 - clock env 0) * 1000))\<rparr>"
      by blast
    with created show ?thesis by simp
  qed
  show "\<exists>errs. create_world_blueprint env prompt world_type = Inl (ValidationError errs) \<and>
              ''prefab_instances'' \<in> set errs"
    if dup: "\<not> distinct (map inst_id (generate_prefab_instances env prompt world_type))"
  proof (cases "create_world_blueprint env prompt world_type")
    case (Inl e)
    from create_world_blueprint_Inl(1) [OF Inl] dup show ?thesis
      using Inl by (simp add: WorldBlueprint_errors_def validate_prefab_instances_distinct)
  next
    case (Inr b)
    from create_world_blueprint_Inr(12) [OF Inr] dup show ?thesis
      by (simp add: WorldBlueprint_errors_Nil)
  qed
  show "validate_prefab_instances v =
     (if distinct (map inst_id v) then Inr v
      else Inl ''Prefab instances must have unique IDs'')"
    by (rule validate_prefab_instances_distinct)
qed

theorem prefab_instance_ids_distinct_witness:
  "\<not> isl (create_world_blueprint example_env ''magic city'' FANTASY) \<and>
   map inst_id (bp_prefab_instances
     (projr (create_world_blueprint example_env ''magic city'' FANTASY))) = [''id-a'', ''id-b''] \<and>
   distinct (map inst_id (bp_prefab_instances
     (projr (create_world_blueprint example_env ''magic city'' FANTASY)))) \<and>
   map inst_id (generate_prefab_instances colliding_env ''magic city'' FANTASY) =
     [''id-a'', ''id-a''] \<and>
   create_world_blueprint colliding_env ''magic city'' FANTASY =
     Inl (ValidationError [''prefab_instances'']) \<and>
   convert_prompt_to_world colliding_env [] (body_of ''magic city'' None) = ([], HTTP_500)"
proof -
  let ?c = "create_world_blueprint example_env ''magic city'' FANTASY"
  have ok: "\<not> isl ?c" by code_simp
  then have eq: "?c = Inr (projr ?c)" by (cases ?c) auto
  have ids: "map inst_id (bp_prefab_instances (projr ?c)) = [''id-a'', ''id-b'']"
    by code_simp
  have dup: "map inst_id (generate_prefab_instances colliding_env ''magic city'' FANTASY) =
     [''id-a'', ''id-a'']"
    by code_simp
  have err: "create_world_blueprint colliding_env ''magic city'' FANTASY =
     Inl (ValidationError [''prefab_instances''])"
    by code_simp
  have http: "convert_prompt_to_world colliding_env [] (body_of ''magic city'' None) =
     ([], HTTP_500)"
    by code_simp
  from prefab_instance_ids_distinct [of example_env "''magic city''" FANTASY "projr ?c"] eq
  have "distinct (map inst_id (bp_prefab_instances (projr ?c)))" by blast
  moreover
  from prefab_instance_ids_distinct [of colliding_env "''magic city''" FANTASY] dup
  have "\<exists>errs. create_world_blueprint colliding_env ''magic city'' FANTASY =
      Inl (ValidationError errs) \<and> ''prefab_instances'' \<in> set errs"
    by simp
  ultimately show ?thesis using ok ids dup err http by simp
qed




section \<open>Validation of the request\<close>

lemma WorldType_of_value_None:
  "WorldType_of_value s = None \<longleftrightarrow> s \<notin> set (map WorldType_value WorldType_members)"
  by (auto simp: WorldType_of_value_def find_None_iff)

lemma new_PromptRequest_Inr_iff:
  "(\<exists>request. new_PromptRequest body = Inr request) \<longleftrightarrow>
     length_between 1 1000 (body_prompt body) \<and>
     (\<forall>s. body_world_type body = Some s \<longrightarrow> WorldType_of_value s \<noteq> None)"
  by (auto simp: new_PromptRequest_def Let_def split: option.splits)

lemma new_PromptRequest_prompt:
  "new_PromptRequest body = Inr request \<Longrightarrow> req_prompt request = body_prompt body"
  by (auto simp: new_PromptRequest_def Let_def split: option.splits if_splits)

text \<open>
  C4, as the claim states it, fails for a prompt of white space only: \<open>PromptRequest\<close>
  constrains the length of the prompt and nothing else, and nothing trims it, so a prompt
  of three blanks is accepted and the service answers it with a blueprint titled " World".
\<close>

theorem whitespace_only_prompt_accepted:
  "list_all is_space ''   '' \<and>
   new_PromptRequest (body_of ''   '' None) =
     Inr \<lparr>req_prompt = ''   '', req_world_type = None, req_user_id = ''test_user''\<rparr> \<and>
   (case snd (convert_prompt_to_world example_env [] (body_of ''   '' None)) of
      HTTP_200 bp \<Rightarrow> bp_title bp = '' World''
    | _ \<Rightarrow> False)"
  by code_simp

text \<open>
  C4, amended. The validation of the request accepts a prompt of exactly 1000 characters,
  rejects one of 1001 characters and the empty prompt with a validation error naming
  \<open>prompt\<close>, and accepts a prompt of 1 to 1000 characters that consists of white space
  only. A world type that is given but is not the value of a member of the enumeration is
  rejected with a validation error naming \<open>world_type\<close>. A rejected body is answered
  with status 422 and leaves the table unchanged. Altogether a body is accepted exactly
  when its prompt has 1 to 1000 characters and its world type, if given, is a member's value.
\<close>

theorem prompt_request_validation:
  "(length (body_prompt body) = 1000 \<and> body_world_type body = None \<longrightarrow>
      (\<exists>request. new_PromptRequest body = Inr request \<and>
                 req_prompt request = body_prompt body)) \<and>
   (length (body_prompt body) = 1001 \<longrightarrow>
      (\<exists>errs. new_PromptRequest body = Inl (ValidationError errs) \<and> ''prompt'' \<in> set errs)) \<and>
   (body_prompt body = [] \<longrightarrow>
      (\<exists>errs. new_PromptRequest body = Inl (ValidationError errs) \<and> ''prompt'' \<in> set errs)) \<and>
   (body_prompt body \<noteq> [] \<and> list_all is_space (body_prompt body) \<and>
    length (body_prompt body) \<le> 1000 \<and> body_world_type body = None \<longrightarrow>
      (\<exists>request. new_PromptRequest body = Inr request \<and>
                 req_prompt request = body_prompt body)) \<and>
   (body_world_type body = Some s \<and> s \<notin> set (map WorldType_value WorldType_members) \<longrightarrow>
      (\<exists>errs. new_PromptRequest body = Inl (ValidationError errs) \<and>
              ''world_type'' \<in> set errs)) \<and>
   (new_PromptRequest body = Inl (ValidationError errs) \<longrightarrow>
      convert_prompt_to_world env table body = (table, HTTP_422 errs)) \<and>
   ((\<exists>request. new_PromptRequest body = Inr request) \<longleftrightarrow>
      1 \<le> length (body_prompt body) \<and> length (body_prompt body) \<le> 1000 \<and>
      (\<forall>s. body_world_type body = Some s \<longrightarrow>
           s \<in> set (map WorldType_value WorldType_members)))"
proof (intro conjI impI)
  show "\<exists>request. new_PromptRequest body = Inr request \<and> req_prompt request = body_prompt body"
    if "length (body_prompt body) = 1000 \<and> body_world_type body = None"
    using that by (simp add: new_PromptRequest_def length_between_def)
  show "\<exists>errs. new_PromptRequest body = Inl (ValidationError errs) \<and> ''prompt'' \<in> set errs"
    if "length (body_prompt body) = 1001"
    using that by (simp add: new_PromptRequest_def length_between_def Let_def)
  show "\<exists>errs. new_PromptRequest body = Inl (ValidationError errs) \<and> ''prompt'' \<in> set errs"
    if "body_prompt body = []"
    using that by (simp add: new_PromptRequest_def length_between_def Let_def)
  show "\<exists>request. new_PromptRequest body = Inr request \<and> req_prompt request = body_prompt body"
    if "body_prompt body \<noteq> [] \<and> list_all is_space (body_prompt body) \<and>
      length (body_prompt body) \<le> 1000 \<and> body_world_type body = None"
  proof -
    from that have "1 \<le> length (body_prompt body)"
      by (cases "body_prompt body") auto
    with that show ?thesis
      by (simp add: new_PromptRequest_def length_between_def)
  qed
  show "\<exists>errs. new_PromptRequest body = Inl (ValidationError errs) \<and>
      ''world_type'' \<in> set errs"
    if "body_world_type body = Some s \<and> s \<notin> set (map WorldType_value WorldType_members)"
  proof -
    from that have "WorldType_of_value s = None"
      using WorldType_of_value_None [of s] by blast
    with that show ?thesis
      by (auto simp: new_PromptRequest_def Let_def)
  qed
  show "convert_prompt_to_world env table body = (table, HTTP_422 errs)"
    if "new_PromptRequest body = Inl (ValidationError errs)"
    using that by (simp add: convert_prompt_to_world_def)
  show "(\<exists>request. new_PromptRequest body = Inr request) \<longleftrightarrow>
      1 \<le> length (body_prompt body) \<and> length (body_prompt body) \<le> 1000 \<and>
      (\<forall>s. body_world_type body = Some s \<longrightarrow>
           s \<in> set (map WorldType_value WorldType_members))"
    unfolding new_PromptRequest_Inr_iff WorldType_of_value_None length_between_def
    by simp
qed

theorem prompt_request_validation_witness:
  "length (body_prompt (body_of (replicate 1000 CHR ''a'') None)) = 1000 \<and>
   new_PromptRequest (body_of (replicate 1000 CHR ''a'') None) =
     Inr \<lparr>req_prompt = replicate 1000 CHR ''a'', req_world_type = None,
          req_user_id = ''test_user''\<rparr> \<and>
   length (body_prompt (body_of (replicate 1001 CHR ''a'') None)) = 1001 \<and>
   new_PromptRequest (body_of (replicate 1001 CHR ''a'') None) =
     Inl (ValidationError [''prompt'']) \<and>
   new_PromptRequest (body_of [] None) = Inl (ValidationError [''prompt'']) \<and>
   convert_prompt_to_world example_env [] (body_of [] None) = ([], HTTP_422 [''prompt'']) \<and>
   list_all is_space ''   '' \<and>
   req_prompt (projr (new_PromptRequest (body_of ''   '' None))) = ''   '' \<and>
   ''sci-fi'' \<notin> set (map WorldType_value WorldType_members) \<and>
   new_PromptRequest (body_of ''a city'' (Some ''sci-fi'')) =
     Inl (ValidationError [''world_type'']) \<and>
   new_PromptRequest (body_of ''a city'' (Some ''sci_fi'')) =
     Inr \<lparr>req_prompt = ''a city'', req_world_type = Some SCI_FI,
          req_user_id = ''test_user''\<rparr>"
proof -
  have a: "new_PromptRequest (body_of (replicate 1000 CHR ''a'') None) =
     Inr \<lparr>req_prompt = replicate 1000 CHR ''a'', req_world_type = None,
          req_user_id = ''test_user''\<rparr>"
    by (simp add: new_PromptRequest_def body_of_def length_between_def)
  have b: "new_PromptRequest (body_of (replicate 1001 CHR ''a'') None) =
     Inl (ValidationError [''prompt''])"
    by (simp add: new_PromptRequest_def body_of_def length_between_def)
  have c: "new_PromptRequest (body_of [] None) = Inl (ValidationError [''prompt''])"
    by (simp add: new_PromptRequest_def body_of_def length_between_def)
  have d: "list_all is_space ''   ''" by code_simp
  have e: "''sci-fi'' \<notin> set (map WorldType_value WorldType_members)"
    by (simp add: WorldType_members_def)
  have f: "new_PromptRequest (body_of ''a city'' (Some ''sci-fi'')) =
     Inl (ValidationError [''world_type''])"
    by code_simp
  have g: "new_PromptRequest (body_of ''a city'' (Some ''sci_fi'')) =
     Inr \<lparr>req_prompt = ''a city'', req_world_type = Some SCI_FI,
          req_user_id = ''test_user''\<rparr>"
    by code_simp
  from prompt_request_validation [where body = "body_of [] None" and s = "[]"
      and errs = "[''prompt'']" and env = example_env and table = "[]"] c
  have h: "convert_prompt_to_world example_env [] (body_of [] None) =
      ([], HTTP_422 [''prompt''])"
    by simp
  have "body_prompt (body_of ''   '' None) \<noteq> [] \<and>
      list_all is_space (body_prompt (body_of ''   '' None)) \<and>
      length (body_prompt (body_of ''   '' None)) \<le> 1000 \<and>
      body_world_type (body_of ''   '' None) = None"
    using d by (simp add: body_of_def)
  with prompt_request_validation [where body = "body_of ''   '' None" and s = "[]"
      and errs = "[]" and env = example_env and table = "[]"]
  obtain request where "new_PromptRequest (body_of ''   '' None) = Inr request"
    and "req_prompt request = body_prompt (body_of ''   '' None)"
    by blast
  then have i: "req_prompt (projr (new_PromptRequest (body_of ''   '' None))) = ''   ''"
    by (simp add: body_of_def)
  from a b c d e f g h i show ?thesis
    by (simp add: body_of_def)
qed

section \<open>Persistence\<close>

text \<open>
  C5, as the claim states it, fails: \<open>generate_world_from_prompt\<close> itself saves the
  blueprint. Called on an empty table it returns a table with one row, whose key is the
  identifier of the blueprint returned.
\<close>

theorem generate_persists_blueprint:
  "\<not> isl (generate_world_from_prompt example_env [] example_request) \<and>
   fst (projr (generate_world_from_prompt example_env [] example_request)) \<noteq> [] \<and>
   map row_id (fst (projr (generate_world_from_prompt example_env [] example_request))) =
     [bp_id (snd (projr (generate_world_from_prompt example_env [] example_request)))]"
  by code_simp

text \<open>
  C5, amended. A call of \<open>generate_world_from_prompt\<close> that returns a blueprint has
  added exactly one row to the table \<open>world_blueprints\<close> and committed it: the rows that
  were there are unchanged, and the new row has the blueprint's identifier as its key,
  which no earlier row had, and the blueprint's prompt, world type, title, description,
  environment settings, instances and spawn points. The caller, the endpoint, persists
  nothing itself: when it answers with status 200 the table it leaves is the one the
  service returned, the old rows and that one row, and when it answers with any other
  status the table is unchanged.
\<close>

theorem generate_adds_blueprint_row:
  "(generate_world_from_prompt env table request = Inr (table', bp) \<longrightarrow>
     (\<exists>row. table' = table @ [row] \<and>
        row_id row = bp_id bp \<and> row_id row \<notin> set (map row_id table) \<and>
        row_prompt row = bp_prompt bp \<and>
        row_world_type row = WorldType_value (bp_world_type bp) \<and>
        row_title row = bp_title bp \<and> row_description row = bp_description bp \<and>
        row_environment_settings row = bp_environment_settings bp \<and>
        row_prefab_instances row = bp_prefab_instances bp \<and>
        row_spawn_points row = bp_spawn_points bp)) \<and>
   (convert_prompt_to_world env table body = (table'', HTTP_200 bp') \<longrightarrow>
     (\<exists>request row. new_PromptRequest body = Inr request \<and>
        generate_world_from_prompt env table request = Inr (table'', bp') \<and>
        table'' = table @ [row] \<and> row_id row = bp_id bp')) \<and>
   (convert_prompt_to_world env table body = (table'', response) \<and>
    (\<forall>b. response \<noteq> HTTP_200 b) \<longrightarrow> table'' = table)"
proof (intro conjI impI)
  have service: "\<exists>row. t = table @ [row] \<and>
        row_id row = bp_id b \<and> row_id row \<notin> set (map row_id table) \<and>
        row_prompt row = bp_prompt b \<and>
        row_world_type row = WorldType_value (bp_world_type b) \<and>
        row_title row = bp_title b \<and> row_description row = bp_description b \<and>
        row_environment_settings row = bp_environment_settings b \<and>
        row_prefab_instances row = bp_prefab_instances b \<and>
        row_spawn_points row = bp_spawn_points b"
    if "generate_world_from_prompt env table r = Inr (t, b)" for r t b
  proof -
    from generate_world_from_prompt_Inr [OF that] obtain bp0 where
      b: "b = bp0\<lparr>bp_processing_time_ms :=
            Some (py_int ((clock env 1 - clock env 0) * 1000))\<rparr>"
      and fresh: "bp_id bp0 \<notin> set (map row_id table)"
      and t: "t = table @
             [\<lparr>row_id = bp_id bp0, row_prompt = bp_prompt bp0,
               row_world_type = WorldType_value (bp_world_type bp0),
               row_title = bp_title bp0, row_description = bp_description bp0,
               row_environment_settings = bp_environment_settings bp0,
               row_prefab_instances = bp_prefab_instances bp0,
               row_spawn_points = bp_spawn_points bp0,
               row_created_at = utcnow env 2, row_updated_at = utcnow env 3\<rparr>]"
      by blast
    from b fresh t show ?thesis by simp
  qed
  show "\<exists>row. table' = table @ [row] \<and>
        row_id row = bp_id bp \<and> row_id row \<notin> set (map row_id table) \<and>
        row_prompt row = bp_prompt bp \<and>
        row_world_type row = WorldType_value (bp_world_type bp) \<and>
        row_title row = bp_title bp \<and> row_description row = bp_description bp \<and>
        row_environment_settings row = bp_environment_settings bp \<and>
        row_prefab_instances row = bp_prefab_instances bp \<and>
        row_spawn_points row = bp_spawn_points bp"
    if "generate_world_from_prompt env table request = Inr (table', bp)"
    using service [OF that] .
  show "\<exists>request row. new_PromptRequest body = Inr request \<and>
        generate_world_from_prompt env table request = Inr (table'', bp') \<and>
        table'' = table @ [row] \<and> row_id row = bp_id bp'"
    if ok: "convert_prompt_to_world env table body = (table'', HTTP_200 bp')"
  proof -
    from ok obtain r where r: "new_PromptRequest body = Inr r"
      and g: "generate_world_from_prompt env table r = Inr (table'', bp')"
      by (auto simp: convert_prompt_to_world_def split: sum.splits error.splits prod.splits)
    from service [OF g] r g show ?thesis by blast
  qed
  show "table'' = table"
    if "convert_prompt_to_world env table body = (table'', response) \<and>
      (\<forall>b. response \<noteq> HTTP_200 b)"
    using that
    by (auto simp: convert_prompt_to_world_def split: sum.splits error.splits prod.splits)
qed

theorem generate_adds_blueprint_row_witness:
  "\<not> isl (generate_world_from_prompt example_env [] example_request) \<and>
   length (fst (projr (generate_world_from_prompt example_env [] example_request))) = 1 \<and>
   row_id (hd (fst (projr (generate_world_from_prompt example_env [] example_request)))) =
     ''id-c'' \<and>
   bp_id (snd (projr (generate_world_from_prompt example_env [] example_request))) = ''id-c'' \<and>
   convert_prompt_to_world example_env [] (body_of example_prompt None) =
     (fst (projr (generate_world_from_prompt example_env [] example_request)),
      HTTP_200 (snd (projr (generate_world_from_prompt example_env [] example_request)))) \<and>
   convert_prompt_to_world colliding_env [] (body_of example_prompt None) = ([], HTTP_500)"
proof -
  let ?g = "generate_world_from_prompt example_env [] example_request"
  let ?c = "convert_prompt_to_world example_env [] (body_of example_prompt None)"
  let ?f = "convert_prompt_to_world colliding_env [] (body_of example_prompt None)"
  have ok: "\<not> isl ?g" by code_simp
  then obtain t b where g: "?g = Inr (t, b)" by (cases ?g) auto
  have key: "bp_id (snd (projr ?g)) = ''id-c''" by code_simp
  have req: "new_PromptRequest (body_of example_prompt None) = Inr example_request"
    by code_simp
  have conv: "?c = (t, HTTP_200 b)"
    using g req by (simp add: convert_prompt_to_world_def)
  have failed: "snd ?f = HTTP_500" by code_simp
  from generate_adds_blueprint_row [where env = example_env and table = "[]"
      and request = example_request and table' = t and bp = b
      and body = "body_of example_prompt None" and table'' = t
      and bp' = b and response = "HTTP_200 b"] g conv
  obtain row where "t = [row]" and "row_id row = bp_id b"
    by auto
  moreover
  have "fst ?f = []"
  proof -
    have whole: "?f = (fst ?f, snd ?f)"
      by (rule prod.collapse [symmetric])
    have "\<forall>x. snd ?f \<noteq> HTTP_200 x"
      using failed by simp
    with whole have "?f = (fst ?f, snd ?f) \<and> (\<forall>x. snd ?f \<noteq> HTTP_200 x)"
      by (rule conjI)
    with generate_adds_blueprint_row [where env = colliding_env and table = "[]"
      and request = example_request and table' = t and bp = b
      and body = "body_of example_prompt None" and table'' = "fst ?f"
      and bp' = b and response = "snd ?f"]
    show ?thesis by blast
  qed
  with failed have "?f = ([], HTTP_500)" by (simp add: prod_eq_iff)
  ultimately show ?thesis using ok key conv g by simp
qed

section \<open>The example of the specification, and repeated calls\<close>

lemma erased_instances_same:
  "map (\<lambda>i. i\<lparr>inst_id := []\<rparr>) (generate_prefab_instances env prompt world_type) =
   map (\<lambda>i. i\<lparr>inst_id := []\<rparr>) (generate_prefab_instances env' prompt world_type)"
  by (simp add: generate_prefab_instances_def new_PrefabInstance_def)

lemma archetypes_same:
  "map (\<lambda>i. (inst_prefab_id i, inst_position i))
     (generate_prefab_instances env prompt world_type) =
   map (\<lambda>i. (inst_prefab_id i, inst_position i))
     (generate_prefab_instances env' prompt world_type)"
  by (simp add: generate_prefab_instances_def new_PrefabInstance_def)

lemma create_world_blueprint_erased:
  assumes "create_world_blueprint env prompt world_type = Inr bp"
    and "create_world_blueprint env' prompt world_type = Inr bp'"
  shows "erase_generated bp = erase_generated bp'"
proof -
  from create_world_blueprint_Inr(5) [OF assms(1)] create_world_blueprint_Inr(5) [OF assms(2)]
  have "bp_environment_settings bp = bp_environment_settings bp'" by simp
  then show ?thesis
    using create_world_blueprint_Inr(1-4,6-7,11) [OF assms(1)]
      create_world_blueprint_Inr(1-4,6-7,11) [OF assms(2)]
      erased_instances_same [of env prompt world_type env']
    by (simp add: erase_generated_def)
qed

text \<open>
  C6, as the claim states it, fails in the title: the first five words of the prompt are
  "A", "magical", "forest", "with" and "ancient", so the title is
  "A Magical Forest With Ancient World" and not "A Magical Forest With World".
\<close>

theorem example_title_has_five_words:
  "example_prompt = ''A magical forest with ancient trees and glowing mushrooms'' \<and>
   take 5 (str_split example_prompt) =
     [''A'', ''magical'', ''forest'', ''with'', ''ancient''] \<and>
   generate_title example_prompt FANTASY = ''A Magical Forest With Ancient World'' \<and>
   generate_title example_prompt FANTASY \<noteq> ''A Magical Forest With World''"
  by code_simp

text \<open>
  C6, amended. The prompt "A magical forest with ancient trees and glowing mushrooms"
  without a world type resolves to fantasy. The title of any prompt is its first five
  words, title-cased and joined by single blanks, followed by " World"; every blueprint
  returned for the example has the type fantasy, the title
  "A Magical Forest With Ancient World", the instances \<open>fantasy_castle_01\<close> at (0,0,0)
  and \<open>magic_tree_01\<close> at (10,0,5), and the spawn points [(0,1,0), (10,1,5)]. A blueprint
  is returned whenever the two identifiers of the instances differ and the blueprint's
  own identifier is not yet a key of the table.
\<close>

theorem end_to_end_example:
  "infer_world_type example_prompt = FANTASY \<and>
   generate_title prompt world_type =
     str_title (str_join '' '' (take 5 (str_split prompt))) @ '' World'' \<and>
   (generate_world_from_prompt env table example_request = Inr (table', bp) \<longrightarrow>
      bp_world_type bp = FANTASY \<and>
      bp_title bp = ''A Magical Forest With Ancient World'' \<and>
      map (\<lambda>i. (inst_prefab_id i, inst_position i)) (bp_prefab_instances bp) =
        [(''fantasy_castle_01'', Vector3 0 0 0), (''magic_tree_01'', Vector3 10 0 5)] \<and>
      bp_spawn_points bp = [Vector3 0 1 0, Vector3 10 1 5]) \<and>
   (uuid4 env 0 \<noteq> uuid4 env 1 \<and> uuid4 env 2 \<notin> set (map row_id table) \<longrightarrow>
      (\<exists>t b. generate_world_from_prompt env table example_request = Inr (t, b)))"
proof (intro conjI impI)
  show inferred: "infer_world_type example_prompt = FANTASY"
    by code_simp
  have title: "generate_title example_prompt FANTASY = ''A Magical Forest With Ancient World''"
    by code_simp
  have resolved: "(case req_world_type example_request of Some t \<Rightarrow> t
      | None \<Rightarrow> infer_world_type (req_prompt example_request)) = FANTASY"
    using inferred by (simp add: example_request_def)
  show "generate_title prompt world_type =
     str_title (str_join '' '' (take 5 (str_split prompt))) @ '' World''"
    by (simp add: generate_title_def)
  {
    assume "generate_world_from_prompt env table example_request = Inr (table', bp)"
    from generate_world_from_prompt_Inr [OF this] resolved obtain bp0 where
      c: "create_world_blueprint env example_prompt FANTASY = Inr bp0"
      and b: "bp = bp0\<lparr>bp_processing_time_ms :=
               Some (py_int ((clock env 1 - clock env 0) * 1000))\<rparr>"
      by (auto simp: example_request_def)
    from create_world_blueprint_Inr(2) [OF c] b
    show "bp_world_type bp = FANTASY" by simp
    from create_world_blueprint_Inr(3) [OF c] b title
    show "bp_title bp = ''A Magical Forest With Ancient World''" by simp
    from create_world_blueprint_Inr(6) [OF c] b
    show "map (\<lambda>i. (inst_prefab_id i, inst_position i)) (bp_prefab_instances bp) =
        [(''fantasy_castle_01'', Vector3 0 0 0), (''magic_tree_01'', Vector3 10 0 5)]"
      by (simp add: generate_prefab_instances_def new_PrefabInstance_def)
    from create_world_blueprint_Inr(7) [OF c] b
    show "bp_spawn_points bp = [Vector3 0 1 0, Vector3 10 1 5]"
      by (simp add: generate_spawn_points_def)
  }
  show "\<exists>t b. generate_world_from_prompt env table example_request = Inr (t, b)"
    if ids: "uuid4 env 0 \<noteq> uuid4 env 1 \<and> uuid4 env 2 \<notin> set (map row_id table)"
  proof -
    have "length_between 1 1000 example_prompt"
      by (simp add: length_between_def example_prompt_def)
    moreover have "length_between 1 200 (generate_title example_prompt FANTASY)"
      by (simp add: title length_between_def)
    moreover have "length_between 1 2000 (generate_description example_prompt FANTASY)"
      using length_generate_description [of example_prompt FANTASY]
      by (simp add: length_between_def example_prompt_def)
    moreover have "distinct (map inst_id (generate_prefab_instances env example_prompt FANTASY))"
      using ids by (simp add: instance_ids_generated)
    ultimately have "WorldBlueprint_errors example_prompt
        (generate_title example_prompt FANTASY) (generate_description example_prompt FANTASY)
        (generate_prefab_instances env example_prompt FANTASY) = []"
      by (simp add: WorldBlueprint_errors_Nil)
    from create_world_blueprint_succeeds [OF this] obtain bp0 where
      c: "create_world_blueprint env example_prompt FANTASY = Inr bp0" ..
    from create_world_blueprint_Inr(8) [OF c] ids
    have "bp_id bp0 \<notin> set (map row_id table)"
      by (simp add: length_generate_prefab_instances)
    with c resolved show ?thesis
      by (intro generate_world_from_prompt_succeeds [of _ _ bp0])
        (simp_all add: example_request_def)
  qed
qed

theorem end_to_end_example_witness:
  "uuid4 example_env 0 \<noteq> uuid4 example_env 1 \<and>
   uuid4 example_env 2 \<notin> set (map row_id ([] :: db)) \<and>
   \<not> isl (generate_world_from_prompt example_env [] example_request) \<and>
   bp_title (snd (projr (generate_world_from_prompt example_env [] example_request))) =
     ''A Magical Forest With Ancient World'' \<and>
   bp_world_type (snd (projr (generate_world_from_prompt example_env [] example_request))) =
     FANTASY \<and>
   bp_spawn_points (snd (projr (generate_world_from_prompt example_env [] example_request))) =
     [Vector3 0 1 0, Vector3 10 1 5]"
proof -
  let ?g = "generate_world_from_prompt example_env [] example_request"
  have ids: "uuid4 example_env 0 \<noteq> uuid4 example_env 1 \<and>
      uuid4 example_env 2 \<notin> set (map row_id ([] :: db))"
    by (simp add: example_env_def)
  note spec = end_to_end_example [where env = example_env and table = "[]"]
  from spec ids obtain t b where g: "?g = Inr (t, b)" by blast
  from spec [of _ _ t b] g
  have "bp_world_type b = FANTASY \<and> bp_title b = ''A Magical Forest With Ancient World'' \<and>
      bp_spawn_points b = [Vector3 0 1 0, Vector3 10 1 5]"
    by simp
  with ids g show ?thesis by simp
qed

text \<open>
  C7, as the claim states it, fails: two calls with the same prompt and world type can
  return blueprints that differ in more than identifiers and time stamps. Here the two
  calls draw the same identifiers and read the same time stamps, yet one measures 250 and
  the other 500 milliseconds, and the blueprints differ in \<open>processing_time_ms\<close>.
\<close>

theorem processing_time_differs:
  "uuid4 slower_env = uuid4 example_env \<and> utcnow slower_env = utcnow example_env \<and>
   \<not> isl (generate_world_from_prompt example_env [] example_request) \<and>
   \<not> isl (generate_world_from_prompt slower_env [] example_request) \<and>
   bp_processing_time_ms
     (snd (projr (generate_world_from_prompt example_env [] example_request))) = Some 250 \<and>
   bp_processing_time_ms
     (snd (projr (generate_world_from_prompt slower_env [] example_request))) = Some 500 \<and>
   erase_generated (snd (projr (generate_world_from_prompt example_env [] example_request))) \<noteq>
   erase_generated (snd (projr (generate_world_from_prompt slower_env [] example_request)))"
proof -
  let ?a = "generate_world_from_prompt example_env [] example_request"
  let ?b = "generate_world_from_prompt slower_env [] example_request"
  have same: "uuid4 slower_env = uuid4 example_env \<and> utcnow slower_env = utcnow example_env"
    by (simp add: slower_env_def)
  have ok: "\<not> isl ?a \<and> \<not> isl ?b" by code_simp
  have ta: "bp_processing_time_ms (snd (projr ?a)) = Some 250" by code_simp
  have tb: "bp_processing_time_ms (snd (projr ?b)) = Some 500" by code_simp
  have keep: "bp_processing_time_ms (erase_generated x) = bp_processing_time_ms x" for x
    by (simp add: erase_generated_def)
  have "erase_generated (snd (projr ?a)) \<noteq> erase_generated (snd (projr ?b))"
  proof
    assume "erase_generated (snd (projr ?a)) = erase_generated (snd (projr ?b))"
    then have "bp_processing_time_ms (erase_generated (snd (projr ?a))) =
        bp_processing_time_ms (erase_generated (snd (projr ?b)))"
      by simp
    with ta tb show False by (simp add: keep)
  qed
  with same ok ta tb show ?thesis by simp
qed

text \<open>
  C7, amended. Two calls of \<open>generate_world_from_prompt\<close> with the same prompt and the
  same world type (given or not) that both return a blueprint return blueprints with the
  same environment settings, the same description, the same prefab ids and positions of
  their instances and the same spawn points; they differ only in the generated
  identifiers, the time stamps and the measured processing time.
\<close>

theorem same_request_same_content:
  "generate_world_from_prompt env1 table1
      \<lparr>req_prompt = prompt, req_world_type = category, req_user_id = user1\<rparr> =
      Inr (table1', bp1) \<and>
   generate_world_from_prompt env2 table2
      \<lparr>req_prompt = prompt, req_world_type = category, req_user_id = user2\<rparr> =
      Inr (table2', bp2) \<longrightarrow>
     bp_environment_settings bp1 = bp_environment_settings bp2 \<and>
     bp_description bp1 = bp_description bp2 \<and>
     map (\<lambda>i. (inst_prefab_id i, inst_position i)) (bp_prefab_instances bp1) =
       map (\<lambda>i. (inst_prefab_id i, inst_position i)) (bp_prefab_instances bp2) \<and>
     bp_spawn_points bp1 = bp_spawn_points bp2 \<and>
     erase_generated (bp1\<lparr>bp_processing_time_ms := None\<rparr>) =
       erase_generated (bp2\<lparr>bp_processing_time_ms := None\<rparr>)"
proof
  let ?t = "case category of Some t \<Rightarrow> t | None \<Rightarrow> infer_world_type prompt"
  assume both: "generate_world_from_prompt env1 table1
      \<lparr>req_prompt = prompt, req_world_type = category, req_user_id = user1\<rparr> =
      Inr (table1', bp1) \<and>
   generate_world_from_prompt env2 table2
      \<lparr>req_prompt = prompt, req_world_type = category, req_user_id = user2\<rparr> =
      Inr (table2', bp2)"
  from both have g1: "generate_world_from_prompt env1 table1
      \<lparr>req_prompt = prompt, req_world_type = category, req_user_id = user1\<rparr> =
      Inr (table1', bp1)"
    and g2: "generate_world_from_prompt env2 table2
      \<lparr>req_prompt = prompt, req_world_type = category, req_user_id = user2\<rparr> =
      Inr (table2', bp2)"
    by simp_all
  from generate_world_from_prompt_Inr [OF g1] obtain b1 where
    c1: "create_world_blueprint env1 prompt ?t = Inr b1"
    and e1: "bp1 = b1\<lparr>bp_processing_time_ms :=
               Some (py_int ((clock env1 1 - clock env1 0) * 1000))\<rparr>"
    by (cases category) auto
  from generate_world_from_prompt_Inr [OF g2] obtain b2 where
    c2: "create_world_blueprint env2 prompt ?t = Inr b2"
    and e2: "bp2 = b2\<lparr>bp_processing_time_ms :=
               Some (py_int ((clock env2 1 - clock env2 0) * 1000))\<rparr>"
    by (cases category) auto
  have n1: "bp1\<lparr>bp_processing_time_ms := None\<rparr> = b1"
    using e1 create_world_blueprint_Inr(11) [OF c1] by simp
  have n2: "bp2\<lparr>bp_processing_time_ms := None\<rparr> = b2"
    using e2 create_world_blueprint_Inr(11) [OF c2] by simp
  have "bp_environment_settings bp1 = bp_environment_settings bp2"
    using create_world_blueprint_Inr(5) [OF c1] create_world_blueprint_Inr(5) [OF c2] e1 e2
    by simp
  moreover have "bp_description bp1 = bp_description bp2"
    using create_world_blueprint_Inr(4) [OF c1] create_world_blueprint_Inr(4) [OF c2] e1 e2
    by simp
  moreover have "map (\<lambda>i. (inst_prefab_id i, inst_position i)) (bp_prefab_instances bp1) =
       map (\<lambda>i. (inst_prefab_id i, inst_position i)) (bp_prefab_instances bp2)"
    using create_world_blueprint_Inr(6) [OF c1] create_world_blueprint_Inr(6) [OF c2] e1 e2
      archetypes_same [of env1 prompt ?t env2]
    by simp
  moreover have "bp_spawn_points bp1 = bp_spawn_points bp2"
    using create_world_blueprint_Inr(7) [OF c1] create_world_blueprint_Inr(7) [OF c2] e1 e2
    by simp
  moreover have "erase_generated (bp1\<lparr>bp_processing_time_ms := None\<rparr>) =
       erase_generated (bp2\<lparr>bp_processing_time_ms := None\<rparr>)"
    unfolding n1 n2 by (rule create_world_blueprint_erased [OF c1 c2])
  ultimately show "bp_environment_settings bp1 = bp_environment_settings bp2 \<and>
     bp_description bp1 = bp_description bp2 \<and>
     map (\<lambda>i. (inst_prefab_id i, inst_position i)) (bp_prefab_instances bp1) =
       map (\<lambda>i. (inst_prefab_id i, inst_position i)) (bp_prefab_instances bp2) \<and>
     bp_spawn_points bp1 = bp_spawn_points bp2 \<and>
     erase_generated (bp1\<lparr>bp_processing_time_ms := None\<rparr>) =
       erase_generated (bp2\<lparr>bp_processing_time_ms := None\<rparr>)"
    by simp
qed

theorem same_request_same_content_witness:
  "\<not> isl (generate_world_from_prompt example_env []
      \<lparr>req_prompt = ''magic city'', req_world_type = None, req_user_id = ''u1''\<rparr>) \<and>
   \<not> isl (generate_world_from_prompt later_env []
      \<lparr>req_prompt = ''magic city'', req_world_type = None, req_user_id = ''u2''\<rparr>) \<and>
   bp_id (snd (projr (generate_world_from_prompt example_env []
      \<lparr>req_prompt = ''magic city'', req_world_type = None, req_user_id = ''u1''\<rparr>))) \<noteq>
   bp_id (snd (projr (generate_world_from_prompt later_env []
      \<lparr>req_prompt = ''magic city'', req_world_type = None, req_user_id = ''u2''\<rparr>))) \<and>
   bp_environment_settings (snd (projr (generate_world_from_prompt example_env []
      \<lparr>req_prompt = ''magic city'', req_world_type = None, req_user_id = ''u1''\<rparr>))) =
   bp_environment_settings (snd (projr (generate_world_from_prompt later_env []
      \<lparr>req_prompt = ''magic city'', req_world_type = None, req_user_id = ''u2''\<rparr>))) \<and>
   bp_spawn_points (snd (projr (generate_world_from_prompt example_env []
      \<lparr>req_prompt = ''magic city'', req_world_type = None, req_user_id = ''u1''\<rparr>))) =
   bp_spawn_points (snd (projr (generate_world_from_prompt later_env []
      \<lparr>req_prompt = ''magic city'', req_world_type = None, req_user_id = ''u2''\<rparr>)))"
proof -
  let ?a = "generate_world_from_prompt example_env []
      \<lparr>req_prompt = ''magic city'', req_world_type = None, req_user_id = ''u1''\<rparr>"
  let ?b = "generate_world_from_prompt later_env []
      \<lparr>req_prompt = ''magic city'', req_world_type = None, req_user_id = ''u2''\<rparr>"
  have ok: "\<not> isl ?a \<and> \<not> isl ?b" by code_simp
  then have a: "?a = Inr (fst (projr ?a), snd (projr ?a))" by (cases ?a) auto
  from ok have b: "?b = Inr (fst (projr ?b), snd (projr ?b))" by (cases ?b) auto
  have ids: "bp_id (snd (projr ?a)) \<noteq> bp_id (snd (projr ?b))" by code_simp
  from same_request_same_content [of example_env "[]" "''magic city''" None "''u1''"
      "fst (projr ?a)" "snd (projr ?a)" later_env "[]" "''u2''" "fst (projr ?b)"
      "snd (projr ?b)"] a b
  have "bp_environment_settings (snd (projr ?a)) = bp_environment_settings (snd (projr ?b)) \<and>
      bp_spawn_points (snd (projr ?a)) = bp_spawn_points (snd (projr ?b))"
    by simp
  with ok ids show ?thesis by simp
qed

section \<open>Later calls and the containers of an earlier blueprint\<close>






end
